theory Spec2Isabelle
  imports Main
begin

section \<open>Python and numpy primitives used by oamap/fillcolumn.py\<close>

text \<open>The exceptions that the module and the library calls it makes can raise.\<close>

datatype error = ValueError | IndexError | NameError | AssertionError | StructError | ZeroDivisionError | OSError

text \<open>
  A numpy scalar type. The argument of the numeric kinds is the width in bytes, so that
  \<open>numpy_int 4\<close> is \<open>int32\<close>. \<open>numpy_bool\<close> is \<open>numpy.bool_\<close>.
\<close>

datatype numpy_dtype = numpy_bool | numpy_int nat | numpy_uint nat | numpy_float nat

section \<open>The schema walk: \<open>_makefillables\<close>\<close>

text \<open>
  Modelled from the spec: the generator classes of \<open>oamap.generator\<close> are imported by the
  module and are not part of it. Section 6 of the specification lists what each node kind
  exposes; the fields below are the attributes that \<open>_makefillables\<close> reads. Every node may
  carry the \<open>Masked\<close> mix-in, which is the first field (\<open>None\<close> when the node is not masked).
  An internal pointer refers back into the tree; its target is never read by the walk.
  \<open>OtherGenerator\<close> stands for a generator of none of the six recognised classes.
\<close>

datatype generator =
    PrimitiveGenerator "string option" string "numpy_dtype option" "nat list option"
  | ListGenerator "string option" string string numpy_dtype generator
  | UnionGenerator "string option" string string numpy_dtype "generator list"
  | RecordGenerator "string option" "(string \<times> generator) list"
  | TupleGenerator "string option" "generator list"
  | PointerGenerator "string option" string numpy_dtype bool generator
  | OtherGenerator "string option"

text \<open>
  Lines 62-63: a masked node registers a boolean fillable with no dimensions under its
  mask name, before the dispatch on the node kind.
\<close>

definition masked :: "string option \<Rightarrow> (string \<rightharpoonup> 'f) \<Rightarrow> (string \<Rightarrow> numpy_dtype \<Rightarrow> nat list \<Rightarrow> 'f) \<Rightarrow> (string \<rightharpoonup> 'f)" where
  "masked maskname fillables makefillable =
     (case maskname of
        None \<Rightarrow> fillables
      | Some m \<Rightarrow> fillables(m \<mapsto> makefillable m numpy_bool []))"

text \<open>
  Lines 61-99. The dictionary \<open>fillables\<close> is threaded through; a raise ends the walk.
  The three loops (over the possibilities of a union, the field values of a record and
  the types of a tuple) are the two list recursions below.
\<close>

fun makefillables :: "generator \<Rightarrow> (string \<rightharpoonup> 'f) \<Rightarrow> (string \<Rightarrow> numpy_dtype \<Rightarrow> nat list \<Rightarrow> 'f) \<Rightarrow> bool \<Rightarrow> bool \<Rightarrow> error + (string \<rightharpoonup> 'f)"
  and makefillables_each :: "generator list \<Rightarrow> (string \<rightharpoonup> 'f) \<Rightarrow> (string \<Rightarrow> numpy_dtype \<Rightarrow> nat list \<Rightarrow> 'f) \<Rightarrow> bool \<Rightarrow> bool \<Rightarrow> error + (string \<rightharpoonup> 'f)"
  and makefillables_fields :: "(string \<times> generator) list \<Rightarrow> (string \<rightharpoonup> 'f) \<Rightarrow> (string \<Rightarrow> numpy_dtype \<Rightarrow> nat list \<Rightarrow> 'f) \<Rightarrow> bool \<Rightarrow> bool \<Rightarrow> error + (string \<rightharpoonup> 'f)"
where
  "makefillables (PrimitiveGenerator maskname data dtype dims) fillables makefillable liststarts unionoffsets =
     (let fillables = masked maskname fillables makefillable in
      case dtype of
        None \<Rightarrow> Inl ValueError
      | Some dt \<Rightarrow>
          (case dims of
             None \<Rightarrow> Inl ValueError
           | Some ds \<Rightarrow> Inr (fillables(data \<mapsto> makefillable data dt ds))))"
| "makefillables (ListGenerator maskname starts stops dtype content) fillables makefillable liststarts unionoffsets =
     (let fillables = masked maskname fillables makefillable;
          fillables = (if liststarts then fillables(starts \<mapsto> makefillable starts dtype []) else fillables);
          fillables = fillables(stops \<mapsto> makefillable stops dtype [])
      in makefillables content fillables makefillable liststarts unionoffsets)"
| "makefillables (UnionGenerator maskname tags offsets dtype possibilities) fillables makefillable liststarts unionoffsets =
     (let fillables = masked maskname fillables makefillable;
          fillables = fillables(tags \<mapsto> makefillable tags dtype []);
          fillables = (if unionoffsets then fillables(offsets \<mapsto> makefillable offsets dtype []) else fillables)
      in makefillables_each possibilities fillables makefillable liststarts unionoffsets)"
| "makefillables (RecordGenerator maskname fields) fillables makefillable liststarts unionoffsets =
     makefillables_fields fields (masked maskname fillables makefillable) makefillable liststarts unionoffsets"
| "makefillables (TupleGenerator maskname types) fillables makefillable liststarts unionoffsets =
     makefillables_each types (masked maskname fillables makefillable) makefillable liststarts unionoffsets"
| "makefillables (PointerGenerator maskname positions dtype internal target) fillables makefillable liststarts unionoffsets =
     (let fillables = masked maskname fillables makefillable;
          fillables = fillables(positions \<mapsto> makefillable positions dtype [])
      in if \<not> internal then makefillables target fillables makefillable liststarts unionoffsets
         else Inr fillables)"
| "makefillables (OtherGenerator maskname) fillables makefillable liststarts unionoffsets =
     (let fillables = masked maskname fillables makefillable in Inl AssertionError)"
| "makefillables_each [] fillables makefillable liststarts unionoffsets = Inr fillables"
| "makefillables_each (g # gs) fillables makefillable liststarts unionoffsets =
     (case makefillables g fillables makefillable liststarts unionoffsets of
        Inl e \<Rightarrow> Inl e
      | Inr fillables' \<Rightarrow> makefillables_each gs fillables' makefillable liststarts unionoffsets)"
| "makefillables_fields [] fillables makefillable liststarts unionoffsets = Inr fillables"
| "makefillables_fields (f # fs) fillables makefillable liststarts unionoffsets =
     (case makefillables (snd f) fillables makefillable liststarts unionoffsets of
        Inl e \<Rightarrow> Inl e
      | Inr fillables' \<Rightarrow> makefillables_fields fs fillables' makefillable liststarts unionoffsets)"

text \<open>
  The call made by each of the four factories (lines 104-105, 111-112, 120-121, 129-130):
  the walk starts from an empty dictionary, which is returned.
\<close>

definition build_fillables :: "generator \<Rightarrow> (string \<Rightarrow> numpy_dtype \<Rightarrow> nat list \<Rightarrow> 'f) \<Rightarrow> bool \<Rightarrow> bool \<Rightarrow> error + (string \<rightharpoonup> 'f)" where
  "build_fillables generator makefillable liststarts unionoffsets =
     makefillables generator Map.empty makefillable liststarts unionoffsets"

text \<open>The number of storage keys of a walk that returned; a walk that raised has none.\<close>

definition storage_keys :: "error + (string \<rightharpoonup> 'f) \<Rightarrow> string set" where
  "storage_keys r = (case r of Inl e \<Rightarrow> {} | Inr fillables \<Rightarrow> dom fillables)"


section \<open>Python sequences and numpy arrays\<close>

text \<open>
  \<open>xs[i]\<close> on a Python list or on the first axis of a numpy array: a negative index counts
  from the end, an index out of range raises \<open>IndexError\<close>.
\<close>

definition py_getitem :: "'a list \<Rightarrow> int \<Rightarrow> error + 'a" where
  "py_getitem xs i =
     (let n = int (length xs); j = (if i < 0 then i + n else i)
      in if 0 \<le> j \<and> j < n then Inr (xs ! nat j) else Inl IndexError)"

text \<open>\<open>xs[i] = v\<close>, with the same index rule.\<close>

definition py_setitem :: "'a list \<Rightarrow> int \<Rightarrow> 'a \<Rightarrow> error + 'a list" where
  "py_setitem xs i v =
     (let n = int (length xs); j = (if i < 0 then i + n else i)
      in if 0 \<le> j \<and> j < n then Inr (xs[nat j := v]) else Inl IndexError)"

text \<open>
  The bounds of \<open>xs[start:stop:step]\<close> for a non-zero step, as the interpreter adjusts
  them: an absent bound is the end the step starts from or runs to, a negative bound has
  the length added, and every bound is clamped. The result is the first position and the
  number of positions.
\<close>

definition slice_indices :: "nat \<Rightarrow> int option \<Rightarrow> int option \<Rightarrow> int \<Rightarrow> int \<times> nat" where
  "slice_indices len start stop step =
     (let n = int len;
          lo = (if step < 0 then - 1 else 0);
          hi = (if step < 0 then n - 1 else n);
          start' = (case start of
                      None \<Rightarrow> (if step < 0 then hi else lo)
                    | Some i \<Rightarrow> (if i < 0 then max lo (i + n) else min hi i));
          stop' = (case stop of
                     None \<Rightarrow> (if step < 0 then lo else hi)
                   | Some i \<Rightarrow> (if i < 0 then max lo (i + n) else min hi i))
      in if step < 0
         then (start', if stop' < start' then nat ((start' - stop' - 1) div (- step) + 1) else 0)
         else (start', if start' < stop' then nat ((stop' - start' - 1) div step + 1) else 0))"

text \<open>\<open>xs[start:stop:step]\<close> for a non-zero step, on a list or on the first axis of an array.\<close>

definition py_getslice :: "'a list \<Rightarrow> int option \<Rightarrow> int option \<Rightarrow> int \<Rightarrow> 'a list" where
  "py_getslice xs start stop step =
     (case slice_indices (length xs) start stop step of
        (first, count) \<Rightarrow> map (\<lambda>k. xs ! nat (first + int k * step)) [0..<count])"

text \<open>
  \<open>out[start:stop] = values\<close> on a numpy array: the values must have as many rows as the
  slice selects, or one row, which is repeated; anything else cannot be broadcast.
\<close>

definition numpy_setslice :: "'a list \<Rightarrow> int option \<Rightarrow> int option \<Rightarrow> 'a list \<Rightarrow> error + 'a list" where
  "numpy_setslice out start stop values =
     (case slice_indices (length out) start stop 1 of
        (first, count) \<Rightarrow>
          if length values = count
          then Inr (take (nat first) out @ values @ drop (nat first + count) out)
          else if length values = 1
          then Inr (take (nat first) out @ replicate count (hd values) @ drop (nat first + count) out)
          else Inl ValueError)"

text \<open>\<open>xrange(a, b, 1)\<close> and \<open>xrange(a, b, -1)\<close>.\<close>

definition xrange :: "int \<Rightarrow> int \<Rightarrow> int \<Rightarrow> int list" where
  "xrange a b s = (if s > 0 then [a..b - 1] else rev [b + 1..a])"

text \<open>
  What the module needs of a numpy element type. An element of a fillable is one row of
  the array, of the shape \<open>dims\<close>; \<open>itemsize\<close> is the size in bytes of one scalar of the
  row, \<open>tostring\<close> gives the bytes of a row and \<open>fromstring\<close> reads them back.
  \<open>numpy.empty\<close> does not initialise its rows: \<open>uninit\<close> is what a fresh row holds.
\<close>

record 'a dtype =
  kind :: numpy_dtype
  tostring :: "'a \<Rightarrow> string"
  fromstring :: "string \<Rightarrow> 'a"
  uninit :: 'a

fun itemsize :: "numpy_dtype \<Rightarrow> nat" where
  "itemsize numpy_bool = 1"
| "itemsize (numpy_int k) = k"
| "itemsize (numpy_uint k) = k"
| "itemsize (numpy_float k) = k"

text \<open>\<open>numpy.empty((n,) + dims, dtype)\<close> for a non-negative \<open>n\<close>.\<close>

definition numpy_empty :: "'a dtype \<Rightarrow> nat \<Rightarrow> 'a list" where
  "numpy_empty dt n = replicate n (uninit dt)"

section \<open>FillableList\<close>

record 'a FillableList =
  L_dtype :: "'a dtype"
  L_dims :: "nat list"
  L_data :: "'a list"
  L_index :: int

definition FillableList_init :: "'a dtype \<Rightarrow> nat list \<Rightarrow> 'a FillableList" where
  "FillableList_init dt dims = \<lparr>L_dtype = dt, L_dims = dims, L_data = [], L_index = 0\<rparr>"

text \<open>Lines 144-145 and 153-154: \<open>del self._data[self._index:]\<close> when the cursor lags.\<close>

definition L_truncate :: "'a FillableList \<Rightarrow> 'a FillableList" where
  "L_truncate f =
     (if L_index f < int (length (L_data f))
      then f\<lparr>L_data := py_getslice (L_data f) None (Some (L_index f)) 1\<rparr>
      else f)"

definition FillableList_append :: "'a FillableList \<Rightarrow> 'a \<Rightarrow> 'a FillableList" where
  "FillableList_append f v =
     (let f = L_truncate f;
          f = f\<lparr>L_data := L_data f @ [v]\<rparr>
      in f\<lparr>L_index := L_index f + 1\<rparr>)"

definition FillableList_extend :: "'a FillableList \<Rightarrow> 'a list \<Rightarrow> 'a FillableList" where
  "FillableList_extend f values =
     (let f = L_truncate f;
          f = f\<lparr>L_data := L_data f @ values\<rparr>
      in f\<lparr>L_index := L_index f + int (length values)\<rparr>)"

definition FillableList_len :: "'a FillableList \<Rightarrow> int" where
  "FillableList_len f = L_index f"

text \<open>Lines 164-183: \<open>__getitem__\<close> with a slice.\<close>

definition FillableList_getslice :: "'a FillableList \<Rightarrow> int option \<Rightarrow> int option \<Rightarrow> int option \<Rightarrow> error + 'a list" where
  "FillableList_getslice f istart istop istep =
     (let lenself = FillableList_len f;
          start = (case istart of None \<Rightarrow> 0 | Some s \<Rightarrow> s);
          stop = (case istop of None \<Rightarrow> lenself | Some s \<Rightarrow> s);
          step = (case istep of None \<Rightarrow> 1 | Some s \<Rightarrow> s);
          start = (if start < 0 then start + lenself else start);
          stop = (if stop < 0 then stop + lenself else stop);
          start = min lenself (max 0 start);
          stop = min lenself (max 0 stop)
      in if step = 0 then Inl ValueError
         else
           let length' = (stop - start) div step
           in if length' < 0 then Inl ValueError
              else numpy_setslice (numpy_empty (L_dtype f) (nat length')) None None
                     (py_getslice (L_data f) (Some start) (Some stop) step))"

text \<open>Lines 185-186: \<open>__getitem__\<close> with a single index.\<close>

definition FillableList_getitem :: "'a FillableList \<Rightarrow> int \<Rightarrow> error + 'a" where
  "FillableList_getitem f i = py_getitem (L_data f) i"

section \<open>FillableArray\<close>

record 'a FillableArray =
  A_dtype :: "'a dtype"
  A_dims :: "nat list"
  chunksize :: int
  A_data :: "'a list list"
  A_indexinchunk :: int
  A_chunkindex :: int

text \<open>Lines 193-199. \<open>numpy.empty\<close> refuses a negative size.\<close>

definition FillableArray_init :: "'a dtype \<Rightarrow> nat list \<Rightarrow> int \<Rightarrow> error + 'a FillableArray" where
  "FillableArray_init dt dims cs =
     (if cs < 0 then Inl ValueError
      else Inr \<lparr>A_dtype = dt, A_dims = dims, chunksize = cs,
                A_data = [numpy_empty dt (nat cs)], A_indexinchunk = 0, A_chunkindex = 0\<rparr>)"

text \<open>
  Lines 204-205 and 220-221: \<open>while len(self._data) <= chunkindex + 1\<close>, appending a fresh
  chunk each time round.
\<close>

function add_chunks :: "'a list \<Rightarrow> int \<Rightarrow> 'a list list \<Rightarrow> 'a list list" where
  "add_chunks chunk chunkindex data =
     (if int (length data) \<le> chunkindex + 1
      then add_chunks chunk chunkindex (data @ [chunk])
      else data)"
  by pat_completeness auto
termination
  by (relation "measure (\<lambda>(chunk, chunkindex, data). nat (chunkindex + 2 - int (length data)))") auto

text \<open>Lines 201-212. The state is returned also when the call raises.\<close>

definition FillableArray_append :: "'a FillableArray \<Rightarrow> 'a \<Rightarrow> (error + unit) \<times> 'a FillableArray" where
  "FillableArray_append f v =
     (case py_getitem (A_data f) (A_chunkindex f) of
        Inl e \<Rightarrow> (Inl e, f)
      | Inr chunk \<Rightarrow>
          (let f = (if A_indexinchunk f \<ge> int (length chunk)
                   then f\<lparr>A_data := add_chunks (numpy_empty (A_dtype f) (nat (chunksize f))) (A_chunkindex f) (A_data f),
                           A_indexinchunk := 0,
                           A_chunkindex := A_chunkindex f + 1\<rparr>
                   else f)
          in case py_getitem (A_data f) (A_chunkindex f) of
               Inl e \<Rightarrow> (Inl e, f)
             | Inr chunk \<Rightarrow>
                 (case py_setitem chunk (A_indexinchunk f) v of
                    Inl e \<Rightarrow> (Inl e, f)
                  | Inr chunk' \<Rightarrow>
                      (case py_setitem (A_data f) (A_chunkindex f) chunk' of
                         Inl e \<Rightarrow> (Inl e, f)
                       | Inr data' \<Rightarrow>
                           (Inr (), f\<lparr>A_data := data', A_indexinchunk := A_indexinchunk f + 1\<rparr>)))))"

text \<open>
  Lines 218-228: the loop of \<open>extend\<close>. The chunks are written in place; the two cursors
  are local to the call. With a chunk size of zero the loop never ends, which is the
  value \<open>None\<close>.
\<close>

partial_function (option) A_extend_loop ::
  "'a FillableArray \<Rightarrow> int \<Rightarrow> int \<Rightarrow> 'a list \<Rightarrow> ((error + int \<times> int) \<times> 'a FillableArray) option"
where
  "A_extend_loop f chunkindex indexinchunk values =
     (if length values > 0 then
        (case py_getitem (A_data f) chunkindex of
           Inl e \<Rightarrow> Some (Inl e, f)
         | Inr chunk \<Rightarrow>
             (let grow = (indexinchunk \<ge> int (length chunk));
                 f = (if grow
                      then f\<lparr>A_data := add_chunks (numpy_empty (A_dtype f) (nat (chunksize f))) chunkindex (A_data f)\<rparr>
                      else f);
                 indexinchunk = (if grow then 0 else indexinchunk);
                 chunkindex = (if grow then chunkindex + 1 else chunkindex);
                 tofill = min (int (length values)) (chunksize f - indexinchunk)
             in case py_getitem (A_data f) chunkindex of
                  Inl e \<Rightarrow> Some (Inl e, f)
                | Inr chunk \<Rightarrow>
                    (case numpy_setslice chunk (Some indexinchunk) (Some (indexinchunk + tofill))
                            (py_getslice values None (Some tofill) 1) of
                       Inl e \<Rightarrow> Some (Inl e, f)
                     | Inr chunk' \<Rightarrow>
                         (case py_setitem (A_data f) chunkindex chunk' of
                            Inl e \<Rightarrow> Some (Inl e, f)
                          | Inr data' \<Rightarrow>
                              A_extend_loop (f\<lparr>A_data := data'\<rparr>) chunkindex (indexinchunk + tofill)
                                (py_getslice values (Some tofill) None 1)))))
      else Some (Inr (chunkindex, indexinchunk), f))"

declare A_extend_loop.simps [code]

text \<open>Lines 214-231.\<close>

definition FillableArray_extend :: "'a FillableArray \<Rightarrow> 'a list \<Rightarrow> ((error + unit) \<times> 'a FillableArray) option" where
  "FillableArray_extend f values =
     (case A_extend_loop f (A_chunkindex f) (A_indexinchunk f) values of
        None \<Rightarrow> None
      | Some (Inl e, f') \<Rightarrow> Some (Inl e, f')
      | Some (Inr (chunkindex, indexinchunk), f') \<Rightarrow>
          Some (Inr (), f'\<lparr>A_chunkindex := chunkindex, A_indexinchunk := indexinchunk\<rparr>))"

definition FillableArray_len :: "'a FillableArray \<Rightarrow> int" where
  "FillableArray_len f = A_chunkindex f * chunksize f + A_indexinchunk f"

text \<open>
  Lines 266-293: the loop over the chunks of a slice. \<open>sc\<close>, \<open>si\<close> are
  \<open>start_chunkindex\<close> and \<open>start_indexinchunk\<close>, \<open>ec\<close>, \<open>ei\<close> are \<open>stop_chunkindex\<close> (after
  its adjustment by one) and \<open>stop_indexinchunk\<close>; the list holds the chunk indices still
  to visit.
\<close>

fun A_getslice_loop :: "'a FillableArray \<Rightarrow> int \<Rightarrow> int \<Rightarrow> int \<Rightarrow> int \<Rightarrow> int \<Rightarrow> int list \<Rightarrow> int \<Rightarrow> 'a list \<Rightarrow> int \<Rightarrow> error + 'a list" where
  "A_getslice_loop f step sc si ec ei [] offset out outi = Inr out"
| "A_getslice_loop f step sc si ec ei (chunkindex # rest) offset out outi =
     (let begin = (if step > 0
                   then (if chunkindex = sc then si else offset)
                   else (if chunkindex = sc then si else chunksize f - offset));
          end' = (if step > 0
                  then (if chunkindex = ec - 1 then ei else chunksize f)
                  else (if chunkindex = ec + 1 then ei else 0))
      in case py_getitem (A_data f) chunkindex of
           Inl e \<Rightarrow> Inl e
         | Inr chunk \<Rightarrow>
             (let array = py_getslice chunk (Some begin) (Some end') step;
                 offset = (end' - begin) mod step
             in case numpy_setslice out (Some outi) (Some (outi + int (length array))) array of
                  Inl e \<Rightarrow> Inl e
                | Inr out \<Rightarrow>
                    (let outi = outi + int (length array)
                     in if outi \<ge> int (length out) then Inr out
                        else A_getslice_loop f step sc si ec ei rest offset out outi)))"

text \<open>Lines 237-295: \<open>__getitem__\<close> with a slice.\<close>

definition FillableArray_getslice :: "'a FillableArray \<Rightarrow> int option \<Rightarrow> int option \<Rightarrow> int option \<Rightarrow> error + 'a list" where
  "FillableArray_getslice f istart istop istep =
     (let lenself = FillableArray_len f;
          start = (case istart of None \<Rightarrow> 0 | Some s \<Rightarrow> s);
          stop = (case istop of None \<Rightarrow> lenself | Some s \<Rightarrow> s);
          step = (case istep of None \<Rightarrow> 1 | Some s \<Rightarrow> s);
          start = (if start < 0 then start + lenself else start);
          stop = (if stop < 0 then stop + lenself else stop);
          start = min lenself (max 0 start);
          stop = min lenself (max 0 stop)
      in if step = 0 then Inl ValueError
         else
           let length' = (stop - start) div step
           in if length' < 0 then Inl ValueError
              else if chunksize f = 0 then Inl ZeroDivisionError
              else
                let out = numpy_empty (A_dtype f) (nat length');
                    start_chunkindex = start div chunksize f;
                    start_indexinchunk = start mod chunksize f;
                    stop_chunkindex = stop div chunksize f;
                    stop_indexinchunk = stop mod chunksize f;
                    stop_chunkindex = (if step > 0 then stop_chunkindex + 1 else stop_chunkindex - 1)
                in A_getslice_loop f step start_chunkindex start_indexinchunk stop_chunkindex stop_indexinchunk
                     (xrange start_chunkindex stop_chunkindex (if step > 0 then 1 else - 1)) 0 out 0)"

text \<open>Lines 298-304: \<open>__getitem__\<close> with a single index.\<close>

definition FillableArray_getitem :: "'a FillableArray \<Rightarrow> int \<Rightarrow> error + 'a" where
  "FillableArray_getitem f i =
     (let lenself = FillableArray_len f;
          normalindex = (if i \<ge> 0 then i else i + lenself)
      in if \<not> (0 \<le> normalindex \<and> normalindex < lenself) then Inl IndexError
         else if chunksize f = 0 then Inl ZeroDivisionError
         else
           let chunkindex = i div chunksize f;
               indexinchunk = i mod chunksize f
           in case py_getitem (A_data f) chunkindex of
                Inl e \<Rightarrow> Inl e
              | Inr chunk \<Rightarrow> py_getitem chunk indexinchunk)"


section \<open>Files\<close>

text \<open>
  A file opened with \<open>open(name, "r+b", 0)\<close>: unbuffered, so \<open>content\<close> is what is on disk
  under the name. Every operation on a closed file raises \<open>ValueError\<close>.
\<close>

record pyfile =
  content :: string
  pos :: nat
  closed :: bool

definition py_open_wb :: pyfile where
  "py_open_wb = \<lparr>content = [], pos = 0, closed = False\<rparr>"

definition py_seek :: "pyfile \<Rightarrow> int \<Rightarrow> error + pyfile" where
  "py_seek file p =
     (if closed file then Inl ValueError
      else if p < 0 then Inl OSError
      else Inr (file\<lparr>pos := nat p\<rparr>))"

text \<open>
  Writing overwrites from the position and extends the file as needed; a gap left by a
  seek past the end reads as zero bytes. Writing no bytes changes nothing.
\<close>

definition py_write :: "pyfile \<Rightarrow> string \<Rightarrow> error + pyfile" where
  "py_write file bytes =
     (if closed file then Inl ValueError
      else if bytes = [] then Inr file
      else Inr (file\<lparr>content := take (pos file) (content file)
                                   @ replicate (pos file - length (content file)) (CHR 0x00)
                                   @ bytes
                                   @ drop (pos file + length bytes) (content file),
                      pos := pos file + length bytes\<rparr>))"

definition py_close :: "pyfile \<Rightarrow> pyfile" where
  "py_close file = file\<lparr>closed := True\<rparr>"

text \<open>The bytes of one row: the scalars of the row, \<open>itemsize\<close> bytes each.\<close>

definition rowsize :: "'a dtype \<Rightarrow> nat list \<Rightarrow> nat" where
  "rowsize dt dims = itemsize (kind dt) * prod_list dims"

text \<open>\<open>array.tostring()\<close>: the rows one after the other.\<close>

definition array_tostring :: "'a dtype \<Rightarrow> 'a list \<Rightarrow> string" where
  "array_tostring dt rows = concat (map (tostring dt) rows)"

text \<open>
  \<open>numpy.memmap(filename, dtype, "r", offset, (n,) + dims, "C")\<close> on the file with the given
  content: \<open>n\<close> rows read from the offset. Mapping no bytes of an empty file and mapping
  more bytes than the file holds are refused.
\<close>

definition numpy_memmap :: "string \<Rightarrow> 'a dtype \<Rightarrow> nat list \<Rightarrow> int \<Rightarrow> int \<Rightarrow> error + 'a list" where
  "numpy_memmap bytes dt dims offset n =
     (if n < 0 \<or> offset < 0 then Inl ValueError
      else
        let size = nat offset + nat n * rowsize dt dims
        in if (size = 0 \<and> bytes = []) \<or> length bytes < size then Inl ValueError
           else Inr (map (\<lambda>k. fromstring dt (take (rowsize dt dims) (drop (nat offset + k * rowsize dt dims) bytes)))
                      [0..<nat n]))"

text \<open>\<open>array[slice(start, stop, step)]\<close> on a numpy array.\<close>

definition numpy_getslice :: "'a list \<Rightarrow> int option \<Rightarrow> int option \<Rightarrow> int option \<Rightarrow> error + 'a list" where
  "numpy_getslice array start stop step =
     (let step' = (case step of None \<Rightarrow> 1 | Some s \<Rightarrow> s)
      in if step' = 0 then Inl ValueError
         else Inr (py_getslice array start stop step'))"

section \<open>Decimal text\<close>

definition digit_char :: "nat \<Rightarrow> char" where
  "digit_char d = char_of (48 + d)"

text \<open>\<open>repr(n)\<close> and \<open>str(n)\<close> of a non-negative integer.\<close>

fun decimal :: "nat \<Rightarrow> string" where
  "decimal n = (if n < 10 then [digit_char n] else decimal (n div 10) @ [digit_char (n mod 10)])"

declare decimal.simps [simp del]

text \<open>\<open>"{0:Wd}".format(n)\<close>: the decimal digits, with spaces in front up to the width.\<close>

definition int_str :: "int \<Rightarrow> string" where
  "int_str n = (if n < 0 then ''-'' @ decimal (nat (- n)) else decimal (nat n))"

definition format_d :: "nat \<Rightarrow> int \<Rightarrow> string" where
  "format_d width n = replicate (width - length (int_str n)) (CHR '' '') @ int_str n"

text \<open>
  Reading a count field back, as \<open>int(text)\<close> does: spaces in front are skipped, the rest
  must be decimal digits, at least one.
\<close>

definition digit_value :: "char \<Rightarrow> nat option" where
  "digit_value c =
     (let k = (of_char c :: nat) in if 48 \<le> k \<and> k \<le> 57 then Some (k - 48) else None)"

fun parse_digits :: "nat \<Rightarrow> string \<Rightarrow> nat option" where
  "parse_digits acc [] = Some acc"
| "parse_digits acc (c # cs) =
     (case digit_value c of
        None \<Rightarrow> None
      | Some d \<Rightarrow> parse_digits (10 * acc + d) cs)"

definition parse_count :: "string \<Rightarrow> nat option" where
  "parse_count text =
     (case dropWhile (\<lambda>c. c = CHR '' '') text of
        [] \<Rightarrow> None
      | cs \<Rightarrow> parse_digits 0 cs)"

text \<open>\<open>str(dtype)\<close> of a numpy scalar type, and \<open>repr\<close> of a tuple of non-negative integers.\<close>

fun dtype_str :: "numpy_dtype \<Rightarrow> string" where
  "dtype_str numpy_bool = ''bool''"
| "dtype_str (numpy_int k) = ''int'' @ decimal (8 * k)"
| "dtype_str (numpy_uint k) = ''uint'' @ decimal (8 * k)"
| "dtype_str (numpy_float k) = ''float'' @ decimal (8 * k)"

fun join_comma :: "string list \<Rightarrow> string" where
  "join_comma [] = []"
| "join_comma [x] = x"
| "join_comma (x # y # ys) = x @ '', '' @ join_comma (y # ys)"

definition tuple_repr :: "nat list \<Rightarrow> string" where
  "tuple_repr xs =
     (if length xs = 1 then ''('' @ decimal (hd xs) @ '',)''
      else ''('' @ join_comma (map decimal xs) @ '')'')"

text \<open>\<open>struct.pack("<H", n)\<close>: two bytes, low byte first; a value that does not fit is refused.\<close>

definition struct_pack_H :: "nat \<Rightarrow> error + string" where
  "struct_pack_H n =
     (if n \<ge> 65536 then Inl StructError
      else Inr [char_of (n mod 256), char_of (n div 256)])"

section \<open>FillableFile and FillableNumpyFile\<close>

text \<open>
  One record for the class and its subclass: \<open>F_numpy\<close> tells which \<open>_openfile\<close> and \<open>flush\<close>
  the object has, and \<open>F_lenpos\<close> and \<open>F_formatter\<close> (the digit width of the format string)
  are the attributes that only the subclass sets. \<open>F_data\<close> is the staging array, whose
  length is the flush size. The record is an object whose constructor returned, so
  it has the attribute \<open>_file\<close>.
\<close>

record 'a FillableFile =
  F_data :: "'a list"
  F_dtype :: "'a dtype"
  F_dims :: "nat list"
  F_index :: int
  F_indexinchunk :: int
  F_indexflushed :: int
  F_filename :: string
  F_file :: pyfile
  F_datapos :: int
  F_numpy :: bool
  F_lenpos :: int
  F_formatter :: nat

text \<open>\<open>self._data[:self._indexinchunk].tostring()\<close>\<close>

definition staged_bytes :: "'a FillableFile \<Rightarrow> int \<Rightarrow> string" where
  "staged_bytes f indexinchunk =
     array_tostring (F_dtype f) (py_getslice (F_data f) None (Some indexinchunk) 1)"

text \<open>Lines 368-371: \<open>FillableFile.flush\<close>.\<close>

definition FillableFile_flush :: "'a FillableFile \<Rightarrow> (error + unit) \<times> 'a FillableFile" where
  "FillableFile_flush f =
     (case py_write (F_file f) (staged_bytes f (F_indexinchunk f)) of
        Inl e \<Rightarrow> (Inl e, f)
      | Inr file \<Rightarrow> (Inr (), f\<lparr>F_file := file, F_indexinchunk := 0, F_indexflushed := F_index f\<rparr>))"

text \<open>Lines 445-451: \<open>FillableNumpyFile.flush\<close>.\<close>

definition FillableNumpyFile_flush :: "'a FillableFile \<Rightarrow> (error + unit) \<times> 'a FillableFile" where
  "FillableNumpyFile_flush f =
     (case py_seek (F_file f) (F_datapos f + F_indexflushed f * int (itemsize (kind (F_dtype f)))) of
        Inl e \<Rightarrow> (Inl e, f)
      | Inr file1 \<Rightarrow>
          (case py_write file1 (staged_bytes f (F_indexinchunk f)) of
             Inl e \<Rightarrow> (Inl e, f\<lparr>F_file := file1\<rparr>)
           | Inr file2 \<Rightarrow>
               (case py_seek file2 (F_lenpos f) of
                  Inl e \<Rightarrow> (Inl e, f\<lparr>F_file := file2\<rparr>)
                | Inr file3 \<Rightarrow>
                    (case py_write file3 (format_d (F_formatter f) (F_index f)) of
                       Inl e \<Rightarrow> (Inl e, f\<lparr>F_file := file3\<rparr>)
                     | Inr file4 \<Rightarrow>
                         (Inr (), f\<lparr>F_file := file4, F_indexinchunk := 0, F_indexflushed := F_index f\<rparr>)))))"

text \<open>\<open>self.flush()\<close>: the method of the object's class.\<close>

definition flush :: "'a FillableFile \<Rightarrow> (error + unit) \<times> 'a FillableFile" where
  "flush f = (if F_numpy f then FillableNumpyFile_flush f else FillableFile_flush f)"


text \<open>Lines 334-343: \<open>append\<close>.\<close>

definition FillableFile_append :: "'a FillableFile \<Rightarrow> 'a \<Rightarrow> (error + unit) \<times> 'a FillableFile" where
  "FillableFile_append f v =
     (case py_setitem (F_data f) (F_indexinchunk f) v of
        Inl e \<Rightarrow> (Inl e, f)
      | Inr data' \<Rightarrow>
          (let f = f\<lparr>F_data := data'\<rparr>;
               f = f\<lparr>F_index := F_index f + 1\<rparr>;
               f = f\<lparr>F_indexinchunk := F_indexinchunk f + 1\<rparr>
           in if F_indexinchunk f \<ge> int (length (F_data f)) then flush f else (Inr (), f)))"

text \<open>
  Lines 351-362: the loop of \<open>extend\<close>. The staging array and the file are written in
  place; the three cursors are local to the call. With a flush size of zero the loop
  never ends, which is the value \<open>None\<close>. The write in the loop is the loop's own
  (lines 359-360), not a call of \<open>flush\<close>.
\<close>

partial_function (option) F_extend_loop ::
  "'a FillableFile \<Rightarrow> int \<Rightarrow> int \<Rightarrow> int \<Rightarrow> 'a list \<Rightarrow> ((error + int \<times> int \<times> int) \<times> 'a FillableFile) option"
where
  "F_extend_loop f index indexinchunk indexflushed values =
     (if length values > 0 then
        (let tofill = min (int (length values)) (int (length (F_data f)) - indexinchunk)
         in case numpy_setslice (F_data f) (Some indexinchunk) (Some (indexinchunk + tofill))
                   (py_getslice values None (Some tofill) 1) of
              Inl e \<Rightarrow> Some (Inl e, f)
            | Inr data' \<Rightarrow>
                (let f = f\<lparr>F_data := data'\<rparr>;
                     index = index + tofill;
                     indexinchunk = indexinchunk + tofill;
                     values = py_getslice values (Some tofill) None 1
                 in if length values > 0 then
                      (case py_seek (F_file f) (F_datapos f + indexflushed * int (itemsize (kind (F_dtype f)))) of
                         Inl e \<Rightarrow> Some (Inl e, f)
                       | Inr file1 \<Rightarrow>
                           (case py_write file1 (staged_bytes f indexinchunk) of
                              Inl e \<Rightarrow> Some (Inl e, f\<lparr>F_file := file1\<rparr>)
                            | Inr file2 \<Rightarrow> F_extend_loop (f\<lparr>F_file := file2\<rparr>) index 0 index values))
                    else F_extend_loop f index indexinchunk indexflushed values))
      else Some (Inr (index, indexinchunk, indexflushed), f))"

declare F_extend_loop.simps [code]

text \<open>Lines 345-366: \<open>extend\<close>.\<close>

definition FillableFile_extend :: "'a FillableFile \<Rightarrow> 'a list \<Rightarrow> ((error + unit) \<times> 'a FillableFile) option" where
  "FillableFile_extend f values =
     (case F_extend_loop f (F_index f) (F_indexinchunk f) (F_indexflushed f) values of
        None \<Rightarrow> None
      | Some (Inl e, f') \<Rightarrow> Some (Inl e, f')
      | Some (Inr (index, indexinchunk, indexflushed), f') \<Rightarrow>
          Some (Inr (), f'\<lparr>F_index := index, F_indexinchunk := indexinchunk, F_indexflushed := indexflushed\<rparr>))"

definition FillableFile_len :: "'a FillableFile \<Rightarrow> int" where
  "FillableFile_len f = F_index f"

text \<open>Lines 377-378: \<open>__getitem__\<close> starts by flushing, unless the file is closed.\<close>

definition flush_unless_closed :: "'a FillableFile \<Rightarrow> (error + unit) \<times> 'a FillableFile" where
  "flush_unless_closed f = (if \<not> closed (F_file f) then flush f else (Inr (), f))"

text \<open>
  Lines 380-385: \<open>__getitem__\<close> with a slice. The file is mapped by its name, which is
  the file the object writes.
\<close>

definition FillableFile_getslice :: "'a FillableFile \<Rightarrow> int option \<Rightarrow> int option \<Rightarrow> int option \<Rightarrow> (error + 'a list) \<times> 'a FillableFile" where
  "FillableFile_getslice f start stop step =
     (case flush_unless_closed f of
        (Inl e, f) \<Rightarrow> (Inl e, f)
      | (Inr u, f) \<Rightarrow>
          (case numpy_memmap (content (F_file f)) (F_dtype f) (F_dims f) (F_datapos f) (FillableFile_len f) of
             Inl e \<Rightarrow> (Inl e, f)
           | Inr array \<Rightarrow>
               if start = None \<and> stop = None \<and> step = None then (Inr array, f)
               else (numpy_getslice array start stop step, f)))"

text \<open>
  Lines 387-405: \<open>__getitem__\<close> with a single index. The parameter of the method is
  called \<open>value\<close>; line 389 reads the name \<open>index\<close>, which is bound neither in the method
  nor in the module, so the interpreter raises \<open>NameError\<close> there. Lines 390-405 are never
  reached.
\<close>

definition FillableFile_getitem :: "'a FillableFile \<Rightarrow> int \<Rightarrow> (error + 'a) \<times> 'a FillableFile" where
  "FillableFile_getitem f v =
     (case flush_unless_closed f of
        (Inl e, f) \<Rightarrow> (Inl e, f)
      | (Inr u, f) \<Rightarrow> (let lenself = FillableFile_len f in (Inl NameError, f)))"

text \<open>Lines 407-410: \<open>close\<close>. The test \<open>hasattr(self, "_file")\<close> holds of every record.\<close>

definition FillableFile_close :: "'a FillableFile \<Rightarrow> (error + unit) \<times> 'a FillableFile" where
  "FillableFile_close f =
     (case flush f of
        (Inl e, f) \<Rightarrow> (Inl e, f)
      | (Inr u, f) \<Rightarrow> (Inr (), f\<lparr>F_file := py_close (F_file f)\<rparr>))"

text \<open>Lines 309-324: the constructor of \<open>FillableFile\<close>, with the plain \<open>_openfile\<close>.\<close>

definition FillableFile_init :: "string \<Rightarrow> 'a dtype \<Rightarrow> nat list \<Rightarrow> int \<Rightarrow> nat \<Rightarrow> error + 'a FillableFile" where
  "FillableFile_init filename dt dims flushsize lendigits =
     (if flushsize < 0 then Inl ValueError
      else Inr \<lparr>F_data = numpy_empty dt (nat flushsize), F_dtype = dt, F_dims = dims,
                F_index = 0, F_indexinchunk = 0, F_indexflushed = 0,
                F_filename = filename, F_file = py_open_wb, F_datapos = 0,
                F_numpy = False, F_lenpos = 0, F_formatter = 0\<rparr>)"

text \<open>
  Lines 425-433: the header of \<open>FillableNumpyFile._openfile\<close>. The result is \<open>header1\<close>, the
  padded \<open>header2\<close>. The padded length is the unpadded length rounded up to a multiple of
  the item size, which the source computes as \<open>ceil(float(unpaddedlen) / itemsize)\<close>.
\<close>

definition magic :: string where
  "magic = [CHR 0x93] @ ''NUMPY'' @ [CHR 0x01, CHR 0x00]"

definition header1 :: "'a dtype \<Rightarrow> string" where
  "header1 dt = ''{'' @ [CHR 0x27] @ ''descr'' @ [CHR 0x27] @ '': '' @ [CHR 0x27] @ dtype_str (kind dt) @ [CHR 0x27]
                @ '', '' @ [CHR 0x27] @ ''fortran_order'' @ [CHR 0x27] @ '': False, ''
                @ [CHR 0x27] @ ''shape'' @ [CHR 0x27] @ '': (''"

definition header2 :: "'a dtype \<Rightarrow> nat list \<Rightarrow> nat \<Rightarrow> error + string" where
  "header2 dt dims lendigits =
     (let h2 = tl (tuple_repr ((10 ^ lendigits - 1) # dims) @ '', }'');
          unpaddedlen = length magic + 2 + length (header1 dt) + length h2
      in if itemsize (kind dt) = 0 then Inl ZeroDivisionError
         else
           let paddedlen = ((unpaddedlen + itemsize (kind dt) - 1) div itemsize (kind dt)) * itemsize (kind dt)
           in Inr (h2 @ replicate (paddedlen - unpaddedlen) (CHR '' '')))"

text \<open>
  Lines 309-318 and 424-443: the constructor of \<open>FillableNumpyFile\<close>. The five writes go to
  a fresh file, one after the other. The assertion of line 434 is checked.
\<close>

definition FillableNumpyFile_init :: "string \<Rightarrow> 'a dtype \<Rightarrow> nat list \<Rightarrow> int \<Rightarrow> nat \<Rightarrow> error + 'a FillableFile" where
  "FillableNumpyFile_init filename dt dims flushsize lendigits =
     (if flushsize < 0 then Inl ValueError
      else
        (case header2 dt dims lendigits of
           Inl e \<Rightarrow> Inl e
         | Inr h2 \<Rightarrow>
             (let lenpos = length magic + 2 + length (header1 dt);
                  datapos = length magic + 2 + length (header1 dt) + length h2
              in if datapos mod itemsize (kind dt) \<noteq> 0 then Inl AssertionError
                 else
                   (case struct_pack_H (length (header1 dt) + length h2) of
                      Inl e \<Rightarrow> Inl e
                    | Inr packed \<Rightarrow>
                        Inr \<lparr>F_data = numpy_empty dt (nat flushsize), F_dtype = dt, F_dims = dims,
                             F_index = 0, F_indexinchunk = 0, F_indexflushed = 0,
                             F_filename = filename,
                             F_file = \<lparr>content = magic @ packed @ header1 dt @ format_d lendigits 0 @ drop lendigits h2,
                                       pos = length (magic @ packed @ header1 dt @ format_d lendigits 0 @ drop lendigits h2),
                                       closed = False\<rparr>,
                             F_datapos = int datapos, F_numpy = True,
                             F_lenpos = int lenpos, F_formatter = lendigits\<rparr>))))"


section \<open>State conditions of the file-backed fillable\<close>

text \<open>
  The offsets the object seeks to are not negative. The constructors set them so and no
  method lowers them.
\<close>

definition offsets_ok :: "'a FillableFile \<Rightarrow> bool" where
  "offsets_ok f = (0 \<le> F_datapos f \<and> 0 \<le> F_indexflushed f \<and> 0 \<le> F_index f \<and> 0 \<le> F_lenpos f)"

text \<open>
  The layout that \<open>FillableNumpyFile._openfile\<close> sets up: the count field of
  \<open>F_formatter\<close> bytes at \<open>F_lenpos\<close> lies before the data, the header is on the file, and
  the file is open.
\<close>

definition numpy_layout :: "'a FillableFile \<Rightarrow> bool" where
  "numpy_layout f =
     (F_numpy f \<and> 0 < F_formatter f \<and> 0 \<le> F_lenpos f
      \<and> F_lenpos f + int (F_formatter f) \<le> F_datapos f
      \<and> F_datapos f \<le> int (length (content (F_file f)))
      \<and> 0 \<le> F_indexflushed f \<and> \<not> closed (F_file f))"

text \<open>The bytes of the count field on the file, and the count a reader parses from them.\<close>

definition count_field :: "'a FillableFile \<Rightarrow> string" where
  "count_field f = take (F_formatter f) (drop (nat (F_lenpos f)) (content (F_file f)))"

definition header_count :: "'a FillableFile \<Rightarrow> nat option" where
  "header_count f = parse_count (count_field f)"

section \<open>Concrete element types and call sequences\<close>

text \<open>
  \<open>int32\<close>: a four-byte signed integer, low byte first. An element is one integer
  (\<open>dims = ()\<close>). Fresh storage is taken to hold zero.
\<close>

definition int32 :: "int dtype" where
  "int32 = \<lparr>kind = numpy_int 4,
            tostring = (\<lambda>x. map (\<lambda>k. char_of ((x div 256 ^ k) mod 256)) [0, 1, 2, 3]),
            fromstring = (\<lambda>s. let u = foldr (\<lambda>c acc. of_char c + 256 * acc) (take 4 s) 0
                              in if u \<ge> 2 ^ 31 then u - 2 ^ 32 else u),
            uninit = 0\<rparr>"

text \<open>
  \<open>int8\<close> with \<open>dims = (2,)\<close>: an element is a row of two one-byte signed integers, so a
  row takes two bytes while the item size is one.
\<close>

definition int8_pair :: "(int list) dtype" where
  "int8_pair = \<lparr>kind = numpy_int 1,
                tostring = (\<lambda>row. map (\<lambda>x. char_of (x mod 256)) (take 2 row)),
                fromstring = (\<lambda>s. map (\<lambda>c. let u = of_char c in if u \<ge> 128 then u - 256 else u) (take 2 s)),
                uninit = [0, 0]\<rparr>"

text \<open>A factory for the schema walk that records the type and the shape asked for.\<close>

definition describe :: "string \<Rightarrow> numpy_dtype \<Rightarrow> nat list \<Rightarrow> numpy_dtype \<times> nat list" where
  "describe name dt dims = (dt, dims)"

text \<open>
  A record with one primitive field, \<open>x\<close>, and one field that is a list of primitives,
  \<open>ys\<close>, with the storage names the schema gives them.
\<close>

definition example_record :: generator where
  "example_record =
     RecordGenerator None
       [(''x'', PrimitiveGenerator None ''object-Fx-Df8'' (Some (numpy_float 8)) (Some [])),
        (''ys'', ListGenerator None ''object-Fys-B'' ''object-Fys-E'' (numpy_int 4)
                  (PrimitiveGenerator None ''object-Fys-L-Di4'' (Some (numpy_int 4)) (Some [])))]"

text \<open>
  Calls made one after the other on a chunked-array fillable, and on a file-backed one.
  A sequence stops at the first call that raises, and gives the exception with the state
  that call left; \<open>None\<close> is an \<open>extend\<close> that never returns.
\<close>

datatype 'a call = Append 'a | Extend "'a list" | Flush | Close

fun A_call :: "'a FillableArray \<Rightarrow> 'a call \<Rightarrow> ((error + unit) \<times> 'a FillableArray) option" where
  "A_call f (Append v) = Some (FillableArray_append f v)"
| "A_call f (Extend vs) = FillableArray_extend f vs"
| "A_call f Flush = Some (Inr (), f)"
| "A_call f Close = Some (Inr (), f)"

fun A_calls :: "'a FillableArray \<Rightarrow> 'a call list \<Rightarrow> ((error + unit) \<times> 'a FillableArray) option" where
  "A_calls f [] = Some (Inr (), f)"
| "A_calls f (c # cs) =
     (case A_call f c of
        None \<Rightarrow> None
      | Some (Inl e, f') \<Rightarrow> Some (Inl e, f')
      | Some (Inr u, f') \<Rightarrow> A_calls f' cs)"

fun F_call :: "'a FillableFile \<Rightarrow> 'a call \<Rightarrow> ((error + unit) \<times> 'a FillableFile) option" where
  "F_call f (Append v) = Some (FillableFile_append f v)"
| "F_call f (Extend vs) = FillableFile_extend f vs"
| "F_call f Flush = Some (flush f)"
| "F_call f Close = Some (FillableFile_close f)"

fun F_calls :: "'a FillableFile \<Rightarrow> 'a call list \<Rightarrow> ((error + unit) \<times> 'a FillableFile) option" where
  "F_calls f [] = Some (Inr (), f)"
| "F_calls f (c # cs) =
     (case F_call f c of
        None \<Rightarrow> None
      | Some (Inl e, f') \<Rightarrow> Some (Inl e, f')
      | Some (Inr u, f') \<Rightarrow> F_calls f' cs)"

text \<open>A fillable made by its constructor and then given the calls, when all of it returned.\<close>

definition A_after :: "'a dtype \<Rightarrow> nat list \<Rightarrow> int \<Rightarrow> 'a call list \<Rightarrow> 'a FillableArray option" where
  "A_after dt dims cs calls =
     (case FillableArray_init dt dims cs of
        Inl e \<Rightarrow> None
      | Inr f \<Rightarrow>
          (case A_calls f calls of
             Some (Inr u, f') \<Rightarrow> Some f'
           | _ \<Rightarrow> None))"

definition F_after :: "(error + 'a FillableFile) \<Rightarrow> 'a call list \<Rightarrow> 'a FillableFile option" where
  "F_after new calls =
     (case new of
        Inl e \<Rightarrow> None
      | Inr f \<Rightarrow>
          (case F_calls f calls of
             Some (Inr u, f') \<Rightarrow> Some f'
           | _ \<Rightarrow> None))"

text \<open>The same when the last of the calls raised: the exception and the state it left.\<close>

definition F_raised :: "(error + 'a FillableFile) \<Rightarrow> 'a call list \<Rightarrow> (error \<times> 'a FillableFile) option" where
  "F_raised new calls =
     (case new of
        Inl e \<Rightarrow> None
      | Inr f \<Rightarrow>
          (case F_calls f calls of
             Some (Inl e, f') \<Rightarrow> Some (e, f')
           | _ \<Rightarrow> None))"


text \<open>
  Three fillables of \<open>int32\<close> used as concrete inputs, written out as the states that
  the constructor and one call produce: a chunked array of chunk size 4 after
  \<open>extend([1,...,7])\<close>, a plain file of flush size 4 after \<open>append(7)\<close>, and a
  self-describing file of flush size 2 and one count digit after \<open>extend([1,2,3])\<close>, which
  has written two elements from inside \<open>extend\<close>, stages the third and has not flushed yet.
\<close>

definition array_of_seven :: "int FillableArray" where
  "array_of_seven =
     \<lparr>A_dtype = int32, A_dims = [], chunksize = 4, A_data = [[1, 2, 3, 4], [5, 6, 7, 0]],
      A_indexinchunk = 3, A_chunkindex = 1\<rparr>"

definition file_of_one :: "int FillableFile" where
  "file_of_one =
     \<lparr>F_data = [7, 0, 0, 0], F_dtype = int32, F_dims = [],
      F_index = 1, F_indexinchunk = 1, F_indexflushed = 0, F_filename = ''col'',
      F_file = \<lparr>content = [], pos = 0, closed = False\<rparr>,
      F_datapos = 0, F_numpy = False, F_lenpos = 0, F_formatter = 0\<rparr>"

definition numpy_file_of_three :: "int FillableFile" where
  "numpy_file_of_three =
     \<lparr>F_data = [3, 2], F_dtype = int32, F_dims = [],
      F_index = 3, F_indexinchunk = 1, F_indexflushed = 2, F_filename = ''col'',
      F_file = \<lparr>content = magic @ [CHR 0x3E, CHR 0x00] @ header1 int32 @ ''0,), }   ''
                           @ [CHR 0x01, CHR 0x00, CHR 0x00, CHR 0x00, CHR 0x02, CHR 0x00, CHR 0x00, CHR 0x00],
                pos = 80, closed = False\<rparr>,
      F_datapos = 72, F_numpy = True, F_lenpos = 63, F_formatter = 1\<rparr>"

section \<open>The concrete states are what the calls produce\<close>

lemma int32_sel: "kind int32 = numpy_int 4" "uninit int32 = 0"
  "tostring int32 x = map (\<lambda>k. char_of ((x div 256 ^ k) mod 256)) [0, 1, 2, 3]"
  by (simp_all add: int32_def)

lemma file_of_one_reached:
  "F_after (FillableFile_init ''col'' int32 [] 4 16) [Append 7] = Some file_of_one"
  by (simp add: F_after_def FillableFile_init_def FillableFile_append_def py_setitem_def numpy_empty_def int32_sel
        py_open_wb_def file_of_one_def Let_def numeral_eq_Suc)

lemma array_of_seven_reached:
  "A_after int32 [] 4 [Extend [1, 2, 3, 4, 5, 6, 7]] = Some array_of_seven"
  by (simp add: A_after_def FillableArray_init_def FillableArray_extend_def A_extend_loop.simps
        py_getitem_def py_setitem_def py_getslice_def slice_indices_def numpy_setslice_def numpy_empty_def
        int32_sel array_of_seven_def Let_def numeral_eq_Suc)

lemma numpy_file_of_three_reached:
  "map_option (\<lambda>f. (F_data f, kind (F_dtype f), F_dims f, F_index f, F_indexinchunk f, F_indexflushed f,
                     F_filename f, F_file f, F_datapos f, F_numpy f, F_lenpos f, F_formatter f))
     (F_after (FillableNumpyFile_init ''col'' int32 [] 2 1) [Extend [1, 2, 3]])
   = Some (F_data numpy_file_of_three, kind (F_dtype numpy_file_of_three), F_dims numpy_file_of_three,
           F_index numpy_file_of_three, F_indexinchunk numpy_file_of_three, F_indexflushed numpy_file_of_three,
           F_filename numpy_file_of_three, F_file numpy_file_of_three, F_datapos numpy_file_of_three,
           F_numpy numpy_file_of_three, F_lenpos numpy_file_of_three, F_formatter numpy_file_of_three)"
  by code_simp

section \<open>The schema walk on a record and on a masked primitive\<close>

text \<open>
  C8, as the specification states it: the walk of a record with one primitive field and
  one list-of-primitive field gives 2 storage keys without list starts and 3 with them.
  On \<open>example_record\<close> the walk gives 3 and 4: the list node registers its stops (and
  starts) and then walks its content, a primitive, which registers its values.
\<close>

theorem record_schema_keys_counterexample:
  "card (storage_keys (build_fillables example_record describe False False)) = 3
   \<and> card (storage_keys (build_fillables example_record describe False False)) \<noteq> 2
   \<and> card (storage_keys (build_fillables example_record describe True False)) = 4
   \<and> card (storage_keys (build_fillables example_record describe True False)) \<noteq> 3"
  by (simp add: example_record_def build_fillables_def storage_keys_def masked_def)

text \<open>
  C8, amended: for a record of one primitive field and one list-of-primitive field, in
  either order, with pairwise distinct storage names, the walk returns exactly 3 storage
  keys without list starts (the primitive's values, the list's stops and the values of
  the list's content) and exactly 4 with them (the list's starts as well). For a masked
  primitive whose mask name differs from its data name the walk returns exactly two
  keys: the mask, made as a boolean fillable without dimensions, and the values, made
  with the node's type and dimensions.
\<close>

theorem record_schema_storage_keys:
  assumes "distinct [data1, starts, stops, data2]"
    and "fs = [(n1, PrimitiveGenerator None data1 (Some t1) (Some d1)),
               (n2, ListGenerator None starts stops t2 (PrimitiveGenerator None data2 (Some t3) (Some d3)))]
       \<or> fs = [(n2, ListGenerator None starts stops t2 (PrimitiveGenerator None data2 (Some t3) (Some d3))),
                (n1, PrimitiveGenerator None data1 (Some t1) (Some d1))]"
    and "maskname \<noteq> data"
  shows "storage_keys (build_fillables (RecordGenerator None fs) makefillable False unionoffsets) = {data1, stops, data2}
       \<and> card (storage_keys (build_fillables (RecordGenerator None fs) makefillable False unionoffsets)) = 3
       \<and> storage_keys (build_fillables (RecordGenerator None fs) makefillable True unionoffsets) = {data1, starts, stops, data2}
       \<and> card (storage_keys (build_fillables (RecordGenerator None fs) makefillable True unionoffsets)) = 4
       \<and> build_fillables (PrimitiveGenerator (Some maskname) data (Some dt) (Some dims)) makefillable liststarts unionoffsets
           = Inr [maskname \<mapsto> makefillable maskname numpy_bool [], data \<mapsto> makefillable data dt dims]
       \<and> card (storage_keys (build_fillables (PrimitiveGenerator (Some maskname) data (Some dt) (Some dims)) makefillable liststarts unionoffsets)) = 2"
  using assms by (auto simp: build_fillables_def storage_keys_def masked_def)

theorem record_schema_storage_keys_witness:
  "distinct [''a'', ''b'', ''c'', ''d'']
   \<and> storage_keys (build_fillables
         (RecordGenerator None
            [(''x'', PrimitiveGenerator None ''a'' (Some (numpy_int 4)) (Some [])),
             (''y'', ListGenerator None ''b'' ''c'' (numpy_int 8) (PrimitiveGenerator None ''d'' (Some (numpy_float 8)) (Some [3])))])
         describe False False) = {''a'', ''c'', ''d''}
   \<and> build_fillables (PrimitiveGenerator (Some ''m'') ''a'' (Some (numpy_int 4)) (Some [])) describe False False
       = Inr [''m'' \<mapsto> (numpy_bool, []), ''a'' \<mapsto> (numpy_int 4, [])]"
  using record_schema_storage_keys
          [where ?data1.0 = "''a''" and starts = "''b''" and stops = "''c''" and ?data2.0 = "''d''"
             and fs = "[(''x'', PrimitiveGenerator None ''a'' (Some (numpy_int 4)) (Some [])),
                        (''y'', ListGenerator None ''b'' ''c'' (numpy_int 8) (PrimitiveGenerator None ''d'' (Some (numpy_float 8)) (Some [3])))]"
             and ?n1.0 = "''x''" and ?t1.0 = "numpy_int 4" and ?d1.0 = "[]" and ?n2.0 = "''y''" and ?t2.0 = "numpy_int 8"
             and ?t3.0 = "numpy_float 8" and ?d3.0 = "[3]" and maskname = "''m''" and data = "''a''"
             and makefillable = describe and unionoffsets = False and liststarts = False
             and dt = "numpy_int 4" and dims = "[]"]
  by (simp add: describe_def)

section \<open>Slices and single indices of the in-memory fillables\<close>

text \<open>
  C1: with \<open>int32\<close>, no dimensions and a chunk size of 4, after \<open>extend([1,2,3,4,5,6,7])\<close> the
  slice \<open>[1:6:2]\<close> of the chunked-array fillable is \<open>[2, 4]\<close>, not the \<open>[2, 4, 6]\<close> that slicing
  the sequence gives: the output is sized \<open>(stop - start) // step = 2\<close> and the loop stops
  when it is full. The list-backed fillable sizes its output the same way, and raises
  when it copies the three selected elements into it.
\<close>

theorem fillablearray_slice_1_6_2:
  "map_option (\<lambda>f. FillableArray_getslice f (Some 1) (Some 6) (Some 2))
     (A_after int32 [] 4 [Extend [1, 2, 3, 4, 5, 6, 7]]) = Some (Inr [2, 4])
   \<and> py_getslice [1, 2, 3, 4, 5, 6, 7 :: int] (Some 1) (Some 6) 2 = [2, 4, 6]
   \<and> FillableList_getslice (FillableList_extend (FillableList_init int32 []) [1, 2, 3, 4, 5, 6, 7])
       (Some 1) (Some 6) (Some 2) = Inl ValueError"
  by code_simp

text \<open>
  C4: in the same chunked-array fillable of 7 elements, the index \<open>-4\<close> is in range and
  its normalized position is 3, which holds 4; the call returns 5, because the chunk and
  the offset are computed from the index as given, not from the normalized one. The index
  \<open>-1\<close> returns the unwritten last cell of the last chunk instead of 7.
\<close>

theorem fillablearray_negative_index:
  "map_option (\<lambda>f. (FillableArray_len f, FillableArray_getitem f 3, FillableArray_getitem f (- 4),
                     FillableArray_getitem f 6, FillableArray_getitem f (- 1)))
     (A_after int32 [] 4 [Extend [1, 2, 3, 4, 5, 6, 7]])
   = Some (7, Inr 4, Inr 5, Inr 7, Inr (uninit int32))"
  by code_simp

section \<open>The file-backed fillable on concrete call sequences\<close>

text \<open>
  C5: a file-backed fillable holding one element, asked for index 0 with its file open,
  raises \<open>NameError\<close> instead of returning the element.
\<close>

theorem fillablefile_getitem_name_error:
  "map_option (\<lambda>f. (FillableFile_len f, closed (F_file f), fst (FillableFile_getitem f 0)))
     (F_after (FillableFile_init ''col'' int32 [] 4 16) [Append 7])
   = Some (1, False, Inl NameError)"
  by code_simp

text \<open>
  C6: after \<open>append(7)\<close> and \<open>close()\<close> the file holds the four bytes of 7 and is closed; a
  second \<open>close()\<close> raises \<open>ValueError\<close>, from the write of \<open>flush\<close> on the closed file. The
  file's content is the same after it.
\<close>

theorem fillablefile_second_close_raises:
  "map_option (\<lambda>f. (content (F_file f), closed (F_file f), fst (FillableFile_close f),
                     content (F_file (snd (FillableFile_close f)))))
     (F_after (FillableFile_init ''col'' int32 [] 4 16) [Append 7, Close])
   = Some ([CHR 0x07, CHR 0x00, CHR 0x00, CHR 0x00], True, Inl ValueError,
           [CHR 0x07, CHR 0x00, CHR 0x00, CHR 0x00])"
  by code_simp

text \<open>
  C3: with a flush size of 1, an \<open>append\<close> whose flush raises (here because the file was
  closed before) leaves the length at 1, where it was 0 before the call, and a second
  \<open>append\<close> of the same value raises \<open>IndexError\<close>: the staging array is full.
\<close>

theorem fillablefile_append_raises_after_counting:
  "map_option FillableFile_len (F_after (FillableFile_init ''col'' int32 [] 1 16) [Close]) = Some 0
   \<and> map_option (\<lambda>(e, f). (e, FillableFile_len f, fst (FillableFile_append f 7)))
        (F_raised (FillableFile_init ''col'' int32 [] 1 16) [Close, Append 7])
      = Some (ValueError, 1, Inl IndexError)"
  by code_simp

text \<open>
  C2: with \<open>int8\<close>, \<open>dims = (2,)\<close> and a flush size of 1, after \<open>append([1,2])\<close>,
  \<open>extend([[3,4],[5,6]])\<close> and a flush the length is 3 but the file holds the five bytes
  1, 3, 4, 5, 6 instead of the six bytes of the three rows, and reading the whole
  fillable back raises: the write inside \<open>extend\<close> seeks to one item size per flushed row,
  which is half a row.
\<close>

theorem fillablefile_extend_rows_overwritten:
  "map_option (\<lambda>f. (FillableFile_len f, content (F_file f), fst (FillableFile_getslice f None None None)))
     (F_after (FillableFile_init ''col'' int8_pair [2] 1 16) [Append [1, 2], Extend [[3, 4], [5, 6]], Flush])
   = Some (3, [CHR 0x01, CHR 0x03, CHR 0x04, CHR 0x05, CHR 0x06], Inl ValueError)
   \<and> array_tostring int8_pair [[1, 2], [3, 4], [5, 6]]
     = [CHR 0x01, CHR 0x02, CHR 0x03, CHR 0x04, CHR 0x05, CHR 0x06]"
  by code_simp

text \<open>
  C9: in the same fillable, when \<open>extend([[3,4],[5,6]])\<close> has returned, \<open>indexflushed\<close> is 2,
  \<open>index\<close> is 3 and \<open>indexinchunk\<close> is 1, but the file, whose data starts at 0, holds 3
  bytes, which is not two rows of 2 bytes.
\<close>

theorem fillablefile_extend_file_short:
  "map_option (\<lambda>f. (F_index f, F_indexinchunk f, F_indexflushed f, F_datapos f,
                     rowsize (F_dtype f) (F_dims f), length (content (F_file f))))
     (F_after (FillableFile_init ''col'' int8_pair [2] 1 16) [Append [1, 2], Extend [[3, 4], [5, 6]]])
   = Some (3, 1, 2, 0, 2, 3)"
  by code_simp

section \<open>Decimal count fields: lemmas\<close>

lemma decimal_nonempty: "decimal n \<noteq> []"
  by (subst decimal.simps) simp

lemma length_decimal_le: "0 < w \<Longrightarrow> n < 10 ^ w \<Longrightarrow> length (decimal n) \<le> w"
proof (induction w arbitrary: n)
  case 0
  then show ?case by simp
next
  case (Suc w)
  show ?case
  proof (cases "n < 10")
    case True
    then show ?thesis by (subst decimal.simps) simp
  next
    case False
    then have w: "0 < w" using Suc.prems by (cases w) auto
    have "n div 10 < 10 ^ w" using Suc.prems by (simp add: less_mult_imp_div_less mult.commute)
    then have "length (decimal (n div 10)) \<le> w" using Suc.IH w by blast
    then show ?thesis using False by (subst decimal.simps) simp
  qed
qed

lemma length_decimal_ge: "10 ^ k \<le> n \<Longrightarrow> k + 1 \<le> length (decimal n)"
proof (induction k arbitrary: n)
  case 0
  then show ?case using decimal_nonempty [of n] by (cases "decimal n") auto
next
  case (Suc k)
  have "(10::nat) \<le> 10 ^ Suc k" by simp
  then have "\<not> n < 10" using Suc.prems by linarith
  moreover have "10 ^ k \<le> n div 10" using Suc.prems by (simp add: le_div_geq less_eq_div_iff_mult_less_eq)
  ultimately show ?case using Suc.IH [of "n div 10"] by (subst decimal.simps) simp
qed

lemma digit_value_digit_char: "d < 10 \<Longrightarrow> digit_value (digit_char d) = Some d"
  by (simp add: digit_value_def digit_char_def)

lemma digit_char_not_space: "d < 10 \<Longrightarrow> digit_char d \<noteq> CHR '' ''"
proof
  assume d: "d < 10" and "digit_char d = CHR '' ''"
  then have "(of_char (digit_char d) :: nat) = of_char (CHR '' '')" by simp
  then show False using d by (simp add: digit_char_def)
qed

lemma parse_digits_snoc:
  "d < 10 \<Longrightarrow> parse_digits acc (cs @ [digit_char d]) = map_option (\<lambda>a. 10 * a + d) (parse_digits acc cs)"
  by (induction cs arbitrary: acc) (auto simp: digit_value_digit_char split: option.splits)

lemma parse_digits_decimal: "parse_digits 0 (decimal n) = Some n"
proof (induction n rule: decimal.induct)
  case (1 n)
  show ?case
  proof (cases "n < 10")
    case True
    then show ?thesis by (subst decimal.simps) (simp add: digit_value_digit_char)
  next
    case False
    then show ?thesis using 1 by (subst decimal.simps) (simp add: parse_digits_snoc)
  qed
qed

lemma hd_decimal_not_space: "hd (decimal n) \<noteq> CHR '' ''"
proof (induction n rule: decimal.induct)
  case (1 n)
  show ?case
  proof (cases "n < 10")
    case True
    then show ?thesis by (subst decimal.simps) (simp add: digit_char_not_space)
  next
    case False
    then show ?thesis using 1 decimal_nonempty [of "n div 10"] by (subst decimal.simps) simp
  qed
qed

lemma parse_count_format_d: "0 \<le> n \<Longrightarrow> parse_count (format_d w n) = Some (nat n)"
proof -
  assume n: "0 \<le> n"
  obtain c cs where d: "decimal (nat n) = c # cs" using decimal_nonempty [of "nat n"] by (cases "decimal (nat n)") auto
  then have c: "c \<noteq> CHR '' ''" using hd_decimal_not_space [of "nat n"] by simp
  have "dropWhile (\<lambda>c. c = CHR '' '') (format_d w n) = decimal (nat n)"
    using n c d by (simp add: format_d_def int_str_def dropWhile_append3)
  then show ?thesis using d parse_digits_decimal [of "nat n"] by (simp add: parse_count_def)
qed

lemma length_format_d: "0 \<le> n \<Longrightarrow> 0 < w \<Longrightarrow> n < 10 ^ w \<Longrightarrow> length (format_d w n) = w"
proof -
  assume a: "0 \<le> n" "0 < w" "n < 10 ^ w"
  then have "nat n < 10 ^ w" by (metis nat_less_iff of_nat_numeral of_nat_power)
  then have "length (decimal (nat n)) \<le> w" using a length_decimal_le by blast
  then show ?thesis using a by (simp add: format_d_def int_str_def)
qed

section \<open>Writes and flushes\<close>

lemma py_getslice_upto_0: "py_getslice xs None (Some 0) 1 = []"
  by (simp add: py_getslice_def slice_indices_def Let_def)

lemma staged_bytes_0: "staged_bytes f 0 = []"
  by (simp add: staged_bytes_def py_getslice_upto_0 array_tostring_def)

lemma py_write_twice:
  assumes "py_write (F\<lparr>pos := p\<rparr>) bs = Inr G"
  shows "py_write (G\<lparr>pos := p\<rparr>) bs = Inr G"
proof (cases "bs = []")
  case True
  then show ?thesis using assms by (auto simp: py_write_def split: if_splits)
next
  case False
  have c: "\<not> closed F" using assms by (auto simp: py_write_def split: if_splits)
  let ?A = "take p (content F) @ replicate (p - length (content F)) (CHR 0x00)"
  have lenA: "length ?A = p" by simp
  have f2: "G = F\<lparr>content := ?A @ bs @ drop (p + length bs) (content F), pos := p + length bs\<rparr>"
    using assms False c by (simp add: py_write_def)
  have "take p (content G) = ?A" using lenA f2 by simp
  moreover have "p - length (content G) = 0" using f2 by simp
  moreover have "drop (p + length bs) (content G) = drop (p + length bs) (content F)"
  proof -
    have "content G = (?A @ bs) @ drop (p + length bs) (content F)" using f2 by simp
    moreover have "length (?A @ bs) = p + length bs" using lenA by simp
    ultimately show ?thesis by (metis append_eq_conv_conj)
  qed
  ultimately show ?thesis using False c f2 by (simp add: py_write_def)
qed

lemma py_write_open:
  "\<not> closed F \<Longrightarrow> \<exists>G. py_write F bs = Inr G \<and> \<not> closed G"
  by (simp add: py_write_def)

lemma FillableFile_flush_open:
  "\<not> closed (F_file f) \<Longrightarrow> \<exists>G. py_write (F_file f) (staged_bytes f (F_indexinchunk f)) = Inr G \<and> \<not> closed G
     \<and> FillableFile_flush f = (Inr (), f\<lparr>F_file := G, F_indexinchunk := 0, F_indexflushed := F_index f\<rparr>)"
  using py_write_open [of "F_file f" "staged_bytes f (F_indexinchunk f)"]
  by (auto simp: FillableFile_flush_def)

lemma FillableFile_flush_twice:
  assumes "\<not> closed (F_file f)" "FillableFile_flush f = (r, f1)"
  shows "r = Inr () \<and> FillableFile_flush f1 = (Inr (), f1) \<and> \<not> closed (F_file f1) \<and> F_index f1 = F_index f \<and> F_numpy f1 = F_numpy f"
proof -
  obtain G where w: "py_write (F_file f) (staged_bytes f (F_indexinchunk f)) = Inr G" "\<not> closed G"
    and fl: "FillableFile_flush f = (Inr (), f\<lparr>F_file := G, F_indexinchunk := 0, F_indexflushed := F_index f\<rparr>)"
    using FillableFile_flush_open [OF assms(1)] by blast
  have f1: "f1 = f\<lparr>F_file := G, F_indexinchunk := 0, F_indexflushed := F_index f\<rparr>" and r: "r = Inr ()"
    using fl assms(2) by auto
  have "staged_bytes f1 (F_indexinchunk f1) = []" using f1 by (simp add: staged_bytes_0)
  then have "FillableFile_flush f1 = (Inr (), f1)"
    using w(2) f1 by (simp add: FillableFile_flush_def py_write_def)
  then show ?thesis using r f1 w(2) by simp
qed

lemma FillableNumpyFile_flush_twice:
  assumes "\<not> closed (F_file f)" "offsets_ok f" "FillableNumpyFile_flush f = (r, f1)"
  shows "r = Inr () \<and> FillableNumpyFile_flush f1 = (Inr (), f1) \<and> \<not> closed (F_file f1) \<and> F_index f1 = F_index f \<and> F_numpy f1 = F_numpy f"
proof -
  let ?p = "F_datapos f + F_indexflushed f * int (itemsize (kind (F_dtype f)))"
  have p0: "0 \<le> ?p" and l0: "0 \<le> F_lenpos f" and i0: "0 \<le> F_index f" and d0: "0 \<le> F_datapos f"
    using assms(2) by (auto simp: offsets_ok_def)
  define file1 where "file1 = (F_file f)\<lparr>pos := nat ?p\<rparr>"
  have s1: "py_seek (F_file f) ?p = Inr file1" using assms(1) p0 by (simp add: py_seek_def file1_def)
  obtain file2 where w2: "py_write file1 (staged_bytes f (F_indexinchunk f)) = Inr file2" and c2: "\<not> closed file2"
    using py_write_open [of file1] assms(1) by (auto simp: file1_def)
  define file3 where "file3 = file2\<lparr>pos := nat (F_lenpos f)\<rparr>"
  have s3: "py_seek file2 (F_lenpos f) = Inr file3" using c2 l0 by (simp add: py_seek_def file3_def)
  obtain file4 where w4: "py_write file3 (format_d (F_formatter f) (F_index f)) = Inr file4" and c4: "\<not> closed file4"
    using py_write_open [of file3] c2 by (auto simp: file3_def)
  have fl: "FillableNumpyFile_flush f = (Inr (), f\<lparr>F_file := file4, F_indexinchunk := 0, F_indexflushed := F_index f\<rparr>)"
    by (simp add: FillableNumpyFile_flush_def s1 w2 s3 w4)
  then have f1: "f1 = f\<lparr>F_file := file4, F_indexinchunk := 0, F_indexflushed := F_index f\<rparr>" and r: "r = Inr ()"
    using assms(3) by auto
  let ?q = "F_datapos f + F_index f * int (itemsize (kind (F_dtype f)))"
  have q0: "0 \<le> ?q" using d0 i0 by simp
  have t1: "py_seek (F_file f1) (F_datapos f1 + F_indexflushed f1 * int (itemsize (kind (F_dtype f1)))) = Inr (file4\<lparr>pos := nat ?q\<rparr>)"
    using f1 c4 q0 by (simp add: py_seek_def)
  have t2: "py_write (file4\<lparr>pos := nat ?q\<rparr>) (staged_bytes f1 (F_indexinchunk f1)) = Inr (file4\<lparr>pos := nat ?q\<rparr>)"
    using f1 c4 by (simp add: staged_bytes_0 py_write_def)
  have t3: "py_seek (file4\<lparr>pos := nat ?q\<rparr>) (F_lenpos f1) = Inr (file4\<lparr>pos := nat (F_lenpos f)\<rparr>)"
    using f1 c4 l0 by (simp add: py_seek_def)
  have t4: "py_write (file4\<lparr>pos := nat (F_lenpos f)\<rparr>) (format_d (F_formatter f1) (F_index f1)) = Inr file4"
    using py_write_twice [where F = file2 and p = "nat (F_lenpos f)" and G = file4] w4 f1
    by (simp add: file3_def)
  have "FillableNumpyFile_flush f1 = (Inr (), f1\<lparr>F_file := file4, F_indexinchunk := 0, F_indexflushed := F_index f1\<rparr>)"
    unfolding FillableNumpyFile_flush_def t1 using t2 t3 t4 f1 by simp
  then show ?thesis using f1 r c4 by simp
qed

lemma flush_twice:
  assumes "\<not> closed (F_file f)" "offsets_ok f" "flush f = (r, f1)"
  shows "r = Inr () \<and> flush f1 = (Inr (), f1) \<and> \<not> closed (F_file f1) \<and> F_index f1 = F_index f"
proof (cases "F_numpy f")
  case True
  then show ?thesis using FillableNumpyFile_flush_twice [OF assms(1,2), of r f1] assms(3) by (simp add: flush_def)
next
  case False
  then show ?thesis using FillableFile_flush_twice [OF assms(1), of r f1] assms(3) by (simp add: flush_def)
qed

lemma numpy_memmap_raises: "numpy_memmap bytes dt dims offset n = Inl e \<Longrightarrow> e = ValueError"
  by (auto simp: numpy_memmap_def Let_def split: if_splits)

lemma numpy_getslice_zero_step: "numpy_getslice array start stop (Some 0) = Inl ValueError"
  by (simp add: numpy_getslice_def)

lemma getslice_zero_step_flushed:
  assumes "flush_unless_closed f = (Inr (), f1)"
  shows "FillableFile_getslice f start stop (Some 0) = (Inl ValueError, f1)"
proof (cases "numpy_memmap (content (F_file f1)) (F_dtype f1) (F_dims f1) (F_datapos f1) (FillableFile_len f1)")
  case (Inl e)
  then have "e = ValueError" by (rule numpy_memmap_raises)
  then show ?thesis using assms Inl by (simp add: FillableFile_getslice_def)
next
  case (Inr array)
  then show ?thesis using assms by (simp add: FillableFile_getslice_def numpy_getslice_zero_step)
qed

lemma FillableFile_getslice_zero_step:
  assumes "offsets_ok f"
  shows "fst (FillableFile_getslice f start stop (Some 0)) = Inl ValueError
       \<and> FillableFile_len (snd (FillableFile_getslice f start stop (Some 0))) = FillableFile_len f
       \<and> fst (FillableFile_getslice (snd (FillableFile_getslice f start stop (Some 0))) None None None)
           = fst (FillableFile_getslice f None None None)"
proof (cases "closed (F_file f)")
  case True
  then have "flush_unless_closed f = (Inr (), f)" by (simp add: flush_unless_closed_def)
  then show ?thesis using getslice_zero_step_flushed [of f f start stop] by simp
next
  case False
  obtain r f1 where fl: "flush f = (r, f1)" by (cases "flush f") auto
  have t: "r = Inr ()" "flush f1 = (Inr (), f1)" "\<not> closed (F_file f1)" "F_index f1 = F_index f"
    using flush_twice [OF False assms fl] by auto
  have u: "flush_unless_closed f = (Inr (), f1)" using False fl t(1) by (simp add: flush_unless_closed_def)
  have u1: "flush_unless_closed f1 = (Inr (), f1)" using t(2,3) by (simp add: flush_unless_closed_def)
  have s: "FillableFile_getslice f start stop (Some 0) = (Inl ValueError, f1)"
    using u by (rule getslice_zero_step_flushed)
  have "fst (FillableFile_getslice f1 None None None) = fst (FillableFile_getslice f None None None)"
    using u u1 by (simp add: FillableFile_getslice_def)
  then show ?thesis using s t(4) by (simp add: FillableFile_len_def)
qed

lemma py_write_keeps_prefix:
  assumes "py_write (F\<lparr>pos := p\<rparr>) bs = Inr G" "d \<le> p" "d \<le> length (content F)"
  shows "take d (content G) = take d (content F) \<and> length (content F) \<le> length (content G) \<and> \<not> closed G"
proof (cases "bs = []")
  case True
  then show ?thesis using assms by (auto simp: py_write_def split: if_splits)
next
  case False
  have c: "\<not> closed F" using assms by (auto simp: py_write_def split: if_splits)
  have G: "G = F\<lparr>content := take p (content F) @ replicate (p - length (content F)) (CHR 0x00)
                           @ bs @ drop (p + length bs) (content F), pos := p + length bs\<rparr>"
    using assms(1) False c by (simp add: py_write_def)
  have "take d (content G) = take d (take p (content F))"
    using G assms(2,3) by simp
  then have "take d (content G) = take d (content F)" using assms(2) by (simp add: min_def)
  moreover have "length (content F) \<le> length (content G)" using G by simp
  ultimately show ?thesis using G c by simp
qed

lemma py_write_inside:
  assumes "py_write (F\<lparr>pos := p\<rparr>) bs = Inr G" "p + length bs \<le> length (content F)"
  shows "content G = take p (content F) @ bs @ drop (p + length bs) (content F) \<and> \<not> closed G"
proof (cases "bs = []")
  case True
  then show ?thesis using assms by (auto simp: py_write_def split: if_splits)
next
  case False
  have c: "\<not> closed F" using assms by (auto simp: py_write_def split: if_splits)
  show ?thesis using assms False c by (auto simp: py_write_def)
qed

section \<open>The count field of the self-describing file\<close>

text \<open>
  C7: for a self-describing file in the layout its constructor sets up, with an element
  count that fits the digit width, a flush returns and leaves in the count field at
  \<open>lenpos\<close> the count rendered at the fixed width, so that the count parsed from the header
  is \<open>length()\<close>; the header bytes before and after the field are those from before the
  flush; and the rewrite of the count changes nothing but the field: with \<open>file2\<close> the
  file after the seek and the write of the staged data (lines 446-447), every byte
  before the field and every byte after it, the data bytes among them, is that of
  \<open>file2\<close>. The layout holds again after the flush.
\<close>

theorem numpy_flush_count_field:
  assumes lay: "numpy_layout f" and i0: "0 \<le> F_index f" and ib: "F_index f < 10 ^ F_formatter f"
    and s1: "py_seek (F_file f) (F_datapos f + F_indexflushed f * int (itemsize (kind (F_dtype f)))) = Inr file1"
    and w2: "py_write file1 (staged_bytes f (F_indexinchunk f)) = Inr file2"
  shows "fst (flush f) = Inr ()
       \<and> count_field (snd (flush f)) = format_d (F_formatter f) (F_index f)
       \<and> header_count (snd (flush f)) = Some (nat (FillableFile_len (snd (flush f))))
       \<and> FillableFile_len (snd (flush f)) = FillableFile_len f
       \<and> take (nat (F_lenpos f)) (content (F_file (snd (flush f)))) = take (nat (F_lenpos f)) (content (F_file f))
       \<and> take (nat (F_datapos f) - (nat (F_lenpos f) + F_formatter f))
            (drop (nat (F_lenpos f) + F_formatter f) (content (F_file (snd (flush f)))))
          = take (nat (F_datapos f) - (nat (F_lenpos f) + F_formatter f))
              (drop (nat (F_lenpos f) + F_formatter f) (content (F_file f)))
       \<and> take (nat (F_lenpos f)) (content (F_file (snd (flush f)))) = take (nat (F_lenpos f)) (content file2)
       \<and> drop (nat (F_lenpos f) + F_formatter f) (content (F_file (snd (flush f))))
          = drop (nat (F_lenpos f) + F_formatter f) (content file2)
       \<and> numpy_layout (snd (flush f))"
proof -
  let ?c = "content (F_file f)"
  let ?l = "nat (F_lenpos f)"
  let ?w = "F_formatter f"
  let ?d = "nat (F_datapos f)"
  let ?p = "F_datapos f + F_indexflushed f * int (itemsize (kind (F_dtype f)))"
  let ?fmt = "format_d ?w (F_index f)"
  have np: "F_numpy f" and w0: "0 < ?w" and l0: "0 \<le> F_lenpos f" and lw: "?l + ?w \<le> ?d"
    and dc: "?d \<le> length ?c" and fl0: "0 \<le> F_indexflushed f" and op: "\<not> closed (F_file f)"
    using lay by (auto simp: numpy_layout_def)
  have d0: "0 \<le> F_datapos f" using lay by (auto simp: numpy_layout_def)
  have p0: "0 \<le> ?p" using d0 fl0 by simp
  have dp: "?d \<le> nat ?p" using d0 fl0 by (simp add: nat_le_iff)
  have f1: "file1 = (F_file f)\<lparr>pos := nat ?p\<rparr>" using s1 op p0 by (simp add: py_seek_def)
  have k2: "take ?d (content file2) = take ?d ?c" "length ?c \<le> length (content file2)" "\<not> closed file2"
    using py_write_keeps_prefix [where F = "F_file f" and p = "nat ?p" and G = file2 and d = ?d] w2 f1 dp dc by auto
  define file3 where "file3 = file2\<lparr>pos := ?l\<rparr>"
  have s3: "py_seek file2 (F_lenpos f) = Inr file3" using k2(3) l0 by (simp add: py_seek_def file3_def)
  have lf: "length ?fmt = ?w" using length_format_d [OF i0 w0 ib] .
  obtain file4 where w4: "py_write file3 ?fmt = Inr file4"
    using py_write_open [of file3 ?fmt] k2(3) by (auto simp: file3_def)
  have fit: "?l + length ?fmt \<le> length (content file2)" using lf lw dc k2(2) by simp
  have k4: "content file4 = take ?l (content file2) @ ?fmt @ drop (?l + ?w) (content file2)" "\<not> closed file4"
    using py_write_inside [where F = file2 and p = ?l and G = file4 and bs = ?fmt] w4 fit lf
    by (auto simp: file3_def)
  have ll: "length (take ?l (content file2)) = ?l" using fit by simp
  have r: "flush f = (Inr (), f\<lparr>F_file := file4, F_indexinchunk := 0, F_indexflushed := F_index f\<rparr>)"
    using np by (simp add: flush_def FillableNumpyFile_flush_def s1 w2 s3 w4)
  have a1: "take ?l (content file4) = take ?l (content file2)" using k4(1) ll by simp
  have a2: "drop (?l + ?w) (content file4) = drop (?l + ?w) (content file2)"
  proof -
    have "content file4 = (take ?l (content file2) @ ?fmt) @ drop (?l + ?w) (content file2)" using k4(1) by simp
    moreover have "length (take ?l (content file2) @ ?fmt) = ?l + ?w" using ll lf by simp
    ultimately show ?thesis by (metis append_eq_conv_conj)
  qed
  have a3: "take ?w (drop ?l (content file4)) = ?fmt"
  proof -
    have "drop ?l (content file4) = ?fmt @ drop (?l + ?w) (content file2)"
      using k4(1) ll by (metis append_eq_conv_conj)
    then show ?thesis using lf by simp
  qed
  have b1: "take ?l (content file2) = take ?l ?c"
  proof -
    have "take ?l (take ?d (content file2)) = take ?l (take ?d ?c)" using k2(1) by simp
    then show ?thesis using lw by (simp add: min_def)
  qed
  have b2: "take (?d - (?l + ?w)) (drop (?l + ?w) (content file2)) = take (?d - (?l + ?w)) (drop (?l + ?w) ?c)"
  proof -
    have "drop (?l + ?w) (take ?d (content file2)) = drop (?l + ?w) (take ?d ?c)" using k2(1) by simp
    then show ?thesis by (simp add: drop_take)
  qed
  have len4: "length (content file4) = length (content file2)" using k4(1) fit lf by simp
  have hc: "parse_count ?fmt = Some (nat (F_index f))" using parse_count_format_d [OF i0] .
  have lay': "numpy_layout (f\<lparr>F_file := file4, F_indexinchunk := 0, F_indexflushed := F_index f\<rparr>)"
    using lay i0 k4(2) len4 k2(2) by (simp add: numpy_layout_def)
  show ?thesis
    unfolding r using a1 a2 a3 b1 b2 hc lay'
    by (simp add: count_field_def header_count_def FillableFile_len_def)
qed

theorem numpy_flush_count_field_witness:
  "numpy_layout numpy_file_of_three
   \<and> 0 \<le> F_index numpy_file_of_three
   \<and> F_index numpy_file_of_three < 10 ^ F_formatter numpy_file_of_three
   \<and> FillableFile_len numpy_file_of_three = 3
   \<and> header_count numpy_file_of_three = Some 0
   \<and> fst (flush numpy_file_of_three) = Inr ()
   \<and> count_field (snd (flush numpy_file_of_three)) = ''3''
   \<and> header_count (snd (flush numpy_file_of_three)) = Some 3"
proof -
  let ?f = "numpy_file_of_three"
  let ?file1 = "projr (py_seek (F_file ?f) (F_datapos ?f + F_indexflushed ?f * int (itemsize (kind (F_dtype ?f)))))"
  let ?file2 = "projr (py_write ?file1 (staged_bytes ?f (F_indexinchunk ?f)))"
  have h1: "numpy_layout ?f" by code_simp
  have h2: "0 \<le> F_index ?f" by code_simp
  have h3: "F_index ?f < 10 ^ F_formatter ?f" by code_simp
  have h4: "py_seek (F_file ?f) (F_datapos ?f + F_indexflushed ?f * int (itemsize (kind (F_dtype ?f)))) = Inr ?file1"
    by code_simp
  have h5: "py_write ?file1 (staged_bytes ?f (F_indexinchunk ?f)) = Inr ?file2" by code_simp
  have e1: "FillableFile_len ?f = 3" by code_simp
  have e2: "format_d (F_formatter ?f) (F_index ?f) = ''3''" by code_simp
  have e3: "header_count ?f = Some 0" by code_simp
  show ?thesis
    using numpy_flush_count_field [OF h1 h2 h3 h4 h5] h1 h2 h3 e1 e2 e3 by simp
qed

section \<open>A slice with a zero step\<close>

text \<open>
  C10: on the list-backed, the chunked-array-backed and the file-backed fillable (plain
  or self-describing, open or closed) a slice whose step is zero raises \<open>ValueError\<close>,
  whatever its start and stop. The first two calls write nothing to the object; the
  model of their \<open>__getitem__\<close> has no state to return. The file-backed call may flush
  before it raises: the length is the same after it, and so is what reading the whole
  fillable gives. The hypothesis is that the offsets of the file-backed object are not
  negative.
\<close>

theorem zero_step_raises:
  assumes "offsets_ok ff"
  shows "FillableList_getslice fl start stop (Some 0) = Inl ValueError
       \<and> FillableArray_getslice fa start stop (Some 0) = Inl ValueError
       \<and> fst (FillableFile_getslice ff start stop (Some 0)) = Inl ValueError
       \<and> FillableFile_len (snd (FillableFile_getslice ff start stop (Some 0))) = FillableFile_len ff
       \<and> fst (FillableFile_getslice (snd (FillableFile_getslice ff start stop (Some 0))) None None None)
           = fst (FillableFile_getslice ff None None None)"
  using FillableFile_getslice_zero_step [OF assms, of start stop]
  by (simp add: FillableList_getslice_def FillableArray_getslice_def Let_def)

theorem zero_step_raises_witness:
  "offsets_ok file_of_one
   \<and> FillableList_getslice (FillableList_extend (FillableList_init int32 []) [1, 2, 3]) (Some 1) (Some 6) (Some 0)
       = Inl ValueError
   \<and> FillableArray_getslice array_of_seven (Some 1) (Some 6) (Some 0) = Inl ValueError
   \<and> fst (FillableFile_getslice file_of_one (Some 1) (Some 6) (Some 0)) = Inl ValueError
   \<and> FillableFile_len (snd (FillableFile_getslice file_of_one (Some 1) (Some 6) (Some 0))) = 1
   \<and> fst (FillableFile_getslice (snd (FillableFile_getslice file_of_one (Some 1) (Some 6) (Some 0))) None None None)
       = Inr [7]"
proof -
  have h: "offsets_ok file_of_one" by code_simp
  have e1: "FillableFile_len file_of_one = 1" by code_simp
  have e2: "fst (FillableFile_getslice file_of_one None None None) = Inr [7]" by code_simp
  show ?thesis
    using zero_step_raises [OF h, where fl = "FillableList_extend (FillableList_init int32 []) [1, 2, 3]"
             and fa = array_of_seven and start = "Some 1" and stop = "Some 6"] h e1 e2
    by simp
qed

end
